theory Spec2Isabelle
  imports Complex_Main
begin

section \<open>Strings as Python sees them\<close>

text \<open>
  The parser of \<^verbatim>\<open>config_parser.py\<close> works on Python \<^verbatim>\<open>str\<close> values. A \<^typ>\<open>char\<close>
  stands for one code point below 256, so a \<^typ>\<open>string\<close> is a Python string over
  Latin-1. The character classes below are Python's own on that range:
  \<^verbatim>\<open>str.isspace\<close> (shared by \<^verbatim>\<open>str.strip()\<close>, \<^verbatim>\<open>str.split()\<close> and the regular
  expression class \<^verbatim>\<open>\s\<close>), \<^verbatim>\<open>str.isdigit\<close>, and the ASCII ranges spelled out in the
  regular expression of \<^verbatim>\<open>parse_global\<close>.
\<close>

definition is_space :: "char \<Rightarrow> bool" where
  "is_space c \<longleftrightarrow> c \<in> set [CHR 0x09, CHR 0x0A, CHR 0x0B, CHR 0x0C, CHR 0x0D,
                          CHR 0x1C, CHR 0x1D, CHR 0x1E, CHR 0x1F, CHR 0x20,
                          CHR 0x85, CHR 0xA0]"

definition ascii_digit :: "char \<Rightarrow> bool" where
  "ascii_digit c \<longleftrightarrow> c \<in> set ''0123456789''"

text \<open>\<^verbatim>\<open>str.isdigit\<close> also accepts the superscript digits U+00B2, U+00B3 and U+00B9.\<close>

definition is_digit :: "char \<Rightarrow> bool" where
  "is_digit c \<longleftrightarrow> ascii_digit c \<or> c \<in> set [CHR 0xB2, CHR 0xB3, CHR 0xB9]"

definition isdigit :: "string \<Rightarrow> bool" where
  "isdigit s \<longleftrightarrow> s \<noteq> [] \<and> list_all is_digit s"

definition ident_start :: "char \<Rightarrow> bool" where
  "ident_start c \<longleftrightarrow>
     c \<in> set ''_abcdefghijklmnopqrstuvwxyzABCDEFGHIJKLMNOPQRSTUVWXYZ''"

definition ident_char :: "char \<Rightarrow> bool" where
  "ident_char c \<longleftrightarrow> ident_start c \<or> ascii_digit c"

text \<open>The regular expression atom \<^verbatim>\<open>.\<close> (no DOTALL flag): anything but a line feed.\<close>

definition dot :: "char \<Rightarrow> bool" where
  "dot c \<longleftrightarrow> c \<noteq> CHR 0x0A"

fun startswith :: "string \<Rightarrow> string \<Rightarrow> bool" where
  "startswith s [] = True"
| "startswith [] (p # ps) = False"
| "startswith (c # cs) (p # ps) = (c = p \<and> startswith cs ps)"

definition endswith :: "string \<Rightarrow> string \<Rightarrow> bool" where
  "endswith s p = startswith (rev s) (rev p)"

text \<open>\<^verbatim>\<open>s.strip()\<close>: whitespace removed at both ends.\<close>

definition strip :: "string \<Rightarrow> string" where
  "strip s = rev (dropWhile is_space (rev (dropWhile is_space s)))"

text \<open>\<^verbatim>\<open>s.split(sep)\<close> for a one-character separator: empty pieces are kept, and the
  empty string gives one empty piece.\<close>

fun split_on :: "char \<Rightarrow> string \<Rightarrow> string list" where
  "split_on sep [] = [[]]"
| "split_on sep (c # cs) =
     (if c = sep then [] # split_on sep cs
      else (case split_on sep cs of
              [] \<Rightarrow> [[c]]
            | p # ps \<Rightarrow> (c # p) # ps))"

text \<open>\<^verbatim>\<open>s.split()\<close>: pieces between runs of whitespace, no empty piece. The first
  argument is the piece being read.\<close>

fun split_ws_from :: "string \<Rightarrow> string \<Rightarrow> string list" where
  "split_ws_from cur [] = (if cur = [] then [] else [cur])"
| "split_ws_from cur (c # cs) =
     (if is_space c then (if cur = [] then split_ws_from [] cs else cur # split_ws_from [] cs)
      else split_ws_from (cur @ [c]) cs)"

definition split_ws :: "string \<Rightarrow> string list" where
  "split_ws s = split_ws_from [] s"

text \<open>\<^verbatim>\<open>sep.join(pieces)\<close>.\<close>

fun join :: "string \<Rightarrow> string list \<Rightarrow> string" where
  "join sep [] = []"
| "join sep [p] = p"
| "join sep (p # q # ps) = p @ sep @ join sep (q # ps)"

section \<open>Values, errors and the parser object\<close>

text \<open>A constant is a Python \<^verbatim>\<open>int\<close> or a \<^verbatim>\<open>list\<close> of constants. Lists are never updated in
  place by the program, so sharing between the table and the stack is not observable.\<close>

datatype val = VInt int | VList "val list"

text \<open>The exceptions the code can raise. \<^verbatim>\<open>SyntaxError\<close> carries its message.\<close>

datatype error =
    SyntaxError string
  | IndexError
  | ZeroDivisionError
  | TypeError
  | ValueError

fun is_SyntaxError :: "error \<Rightarrow> bool" where
  "is_SyntaxError (SyntaxError m) = True"
| "is_SyntaxError e = False"

definition raises_SyntaxError :: "(error + 'a) \<Rightarrow> bool" where
  "raises_SyntaxError r = (case r of Inl e \<Rightarrow> is_SyntaxError e | Inr x \<Rightarrow> False)"

text \<open>An \<^verbatim>\<open>xml.etree.ElementTree.Element\<close>: tag, attributes, text, children.\<close>

datatype xml = Element (tag: string) (attrib: "(string \<times> string) list")
                       (etext: "string option") (children: "xml list")

text \<open>\<^verbatim>\<open>ET.SubElement(parent, ...)\<close> appends the new element to the parent's children.\<close>

definition append_child :: "xml \<Rightarrow> xml \<Rightarrow> xml" where
  "append_child parent e =
     Element (tag parent) (attrib parent) (etext parent) (children parent @ [e])"

text \<open>The fields of \<^verbatim>\<open>ConfigParser\<close>, and the lines printed so far.\<close>

record config_parser =
  constants :: "string \<rightharpoonup> val"
  xml_root :: xml
  stdout :: "string list"

definition init :: config_parser where
  "init = \<lparr>constants = Map.empty, xml_root = Element ''config'' [] None [], stdout = []\<rparr>"

section \<open>Conversions between integers and text\<close>

definition digit_val :: "char \<Rightarrow> int" where
  "digit_val c = int (of_char c) - 48"

text \<open>\<^verbatim>\<open>int(s)\<close> on a string that passed \<^verbatim>\<open>isdigit\<close>: the decimal value when every
  character is an ASCII digit, \<^verbatim>\<open>ValueError\<close> on a superscript digit. (The limit of
  recent Python versions on the number of digits is not modelled.)\<close>

definition py_int :: "string \<Rightarrow> error + int" where
  "py_int s = (if list_all ascii_digit s
               then Inr (foldl (\<lambda>acc c. 10 * acc + digit_val c) 0 s)
               else Inl ValueError)"

fun str_nat :: "nat \<Rightarrow> string" where
  "str_nat n = (if n < 10 then [''0123456789'' ! n]
                else str_nat (n div 10) @ [''0123456789'' ! (n mod 10)])"

declare str_nat.simps [simp del]

definition str_int :: "int \<Rightarrow> string" where
  "str_int i = (if i < 0 then CHR ''-'' # str_nat (nat (- i)) else str_nat (nat i))"

text \<open>\<^verbatim>\<open>str(value)\<close>: a list prints as \<^verbatim>\<open>[e1, e2]\<close>.\<close>

fun str_val :: "val \<Rightarrow> string" where
  "str_val (VInt i) = str_int i"
| "str_val (VList vs) = ''['' @ join '', '' (map str_val vs) @ '']''"

section \<open>The value literal parser\<close>

text \<open>A list comprehension evaluates its elements in order and stops at the first
  exception.\<close>

fun collect :: "(error + 'a) list \<Rightarrow> error + 'a list" where
  "collect [] = Inr []"
| "collect (r # rs) =
     (case r of
        Inl e \<Rightarrow> Inl e
      | Inr v \<Rightarrow> (case collect rs of Inl e \<Rightarrow> Inl e | Inr vs \<Rightarrow> Inr (v # vs)))"

text \<open>
  \<^verbatim>\<open>parse_value\<close> (lines 56-71) and \<^verbatim>\<open>parse_array\<close> (lines 73-80). Both only read
  \<^verbatim>\<open>self.constants\<close>, which is their first argument here. The slice
  \<^verbatim>\<open>array_str[len("array("):-1]\<close> is \<open>drop 6 (butlast array_str)\<close>.
\<close>

function parse_value :: "(string \<rightharpoonup> val) \<Rightarrow> string \<Rightarrow> error + val"
  and parse_array :: "(string \<rightharpoonup> val) \<Rightarrow> string \<Rightarrow> error + val" where
  "parse_value c v =
     (if startswith v ''array('' \<and> endswith v '')'' then parse_array c v
      else if isdigit v then (case py_int v of Inl e \<Rightarrow> Inl e | Inr n \<Rightarrow> Inr (VInt n))
      else (case c v of
              Some x \<Rightarrow> Inr x
            | None \<Rightarrow> Inl (SyntaxError (''Invalid value: '' @ v))))"
| "parse_array c array_str =
     (case collect (map (\<lambda>p. parse_value c (strip p))
                        (split_on CHR '','' (drop 6 (butlast array_str)))) of
        Inl e \<Rightarrow> Inl e
      | Inr vs \<Rightarrow> Inr (VList vs))"
  by pat_completeness auto
termination
proof (relation "measure (\<lambda>x. case x of
                     Inl (c, v) \<Rightarrow> 2 * length v + 1
                   | Inr (c, a) \<Rightarrow> 2 * length (drop 6 (butlast a)) + 2)", goal_cases)
  case 1
  show ?case by simp
next
  case (2 c v)
  then have "v \<noteq> []" by auto
  then show ?case by (cases v) auto
next
  case (3 c array_str p)
  have piece: "q \<in> set (split_on sep s) \<Longrightarrow> length q \<le> length s" for q sep s
  proof (induction s arbitrary: q)
    case Nil
    then show ?case by simp
  next
    case (Cons a s)
    show ?case
    proof (cases "a = sep")
      case True
      with Cons show ?thesis by (auto simp: le_SucI)
    next
      case False
      with Cons.prems have "length q \<le> 1 \<or> (\<exists>r \<in> set (split_on sep s). length q \<le> Suc (length r))
          \<or> q \<in> set (split_on sep s)"
        by (auto split: list.splits)
      with Cons.IH show ?thesis by (fastforce simp: le_SucI)
    qed
  qed
  have "length (strip p) \<le> length (dropWhile is_space p)"
    unfolding strip_def using length_dropWhile_le [of is_space "rev (dropWhile is_space p)"]
    by simp
  also have "\<dots> \<le> length p" by (rule length_dropWhile_le)
  also have "\<dots> \<le> length (drop 6 (butlast array_str))"
    using 3 by (rule piece)
  finally show ?case by simp
qed

declare parse_value.simps [simp del] parse_array.simps [simp del]

section \<open>The operators of the expression evaluator on Python values\<close>

text \<open>
  The stack holds whatever the symbol table holds, so an operand can be a list. Python
  defines \<^verbatim>\<open>+\<close> on two lists (concatenation) and \<^verbatim>\<open>*\<close> on a list and an int
  (repetition); every other mix of int and list raises \<^verbatim>\<open>TypeError\<close>.
\<close>

definition py_add :: "val \<Rightarrow> val \<Rightarrow> error + val" where
  "py_add a b = (case (a, b) of
       (VInt x, VInt y) \<Rightarrow> Inr (VInt (x + y))
     | (VList xs, VList ys) \<Rightarrow> Inr (VList (xs @ ys))
     | _ \<Rightarrow> Inl TypeError)"

definition py_sub :: "val \<Rightarrow> val \<Rightarrow> error + val" where
  "py_sub a b = (case (a, b) of
       (VInt x, VInt y) \<Rightarrow> Inr (VInt (x - y))
     | _ \<Rightarrow> Inl TypeError)"

definition py_mul :: "val \<Rightarrow> val \<Rightarrow> error + val" where
  "py_mul a b = (case (a, b) of
       (VInt x, VInt y) \<Rightarrow> Inr (VInt (x * y))
     | (VList xs, VInt n) \<Rightarrow> Inr (VList (concat (replicate (nat n) xs)))
     | (VInt n, VList xs) \<Rightarrow> Inr (VList (concat (replicate (nat n) xs)))
     | _ \<Rightarrow> Inl TypeError)"

text \<open>\<^verbatim>\<open>a // b\<close> and \<^verbatim>\<open>a % b\<close>: on ints Python rounds the quotient down, which is what
  \<open>div\<close> and \<open>mod\<close> on \<^typ>\<open>int\<close> do; a zero divisor raises.\<close>

definition py_floordiv :: "val \<Rightarrow> val \<Rightarrow> error + val" where
  "py_floordiv a b = (case (a, b) of
       (VInt x, VInt y) \<Rightarrow> (if y = 0 then Inl ZeroDivisionError else Inr (VInt (x div y)))
     | _ \<Rightarrow> Inl TypeError)"

definition py_mod :: "val \<Rightarrow> val \<Rightarrow> error + val" where
  "py_mod a b = (case (a, b) of
       (VInt x, VInt y) \<Rightarrow> (if y = 0 then Inl ZeroDivisionError else Inr (VInt (x mod y)))
     | _ \<Rightarrow> Inl TypeError)"

text \<open>\<^verbatim>\<open>a > b\<close>; \<open>None\<close> is \<^verbatim>\<open>TypeError\<close>. Two lists are compared at the first position
  where they differ, or by length when one is a prefix of the other.\<close>

fun py_gt :: "val \<Rightarrow> val \<Rightarrow> bool option"
  and py_gt_list :: "val list \<Rightarrow> val list \<Rightarrow> bool option" where
  "py_gt (VInt x) (VInt y) = Some (x > y)"
| "py_gt (VList xs) (VList ys) = py_gt_list xs ys"
| "py_gt (VInt x) (VList ys) = None"
| "py_gt (VList xs) (VInt y) = None"
| "py_gt_list [] ys = Some False"
| "py_gt_list (x # xs) [] = Some True"
| "py_gt_list (x # xs) (y # ys) = (if x = y then py_gt_list xs ys else py_gt x y)"

text \<open>\<^verbatim>\<open>max(a, b)\<close> keeps \<^verbatim>\<open>a\<close> unless \<^verbatim>\<open>b > a\<close>.\<close>

definition py_max :: "val \<Rightarrow> val \<Rightarrow> error + val" where
  "py_max a b = (case py_gt b a of
       None \<Rightarrow> Inl TypeError
     | Some g \<Rightarrow> Inr (if g then b else a))"

section \<open>The expression evaluator\<close>

text \<open>The stack is a Python list: \<^verbatim>\<open>append\<close> adds at the end, \<^verbatim>\<open>pop()\<close> takes the last
  element and raises \<^verbatim>\<open>IndexError\<close> on an empty list.\<close>

definition pop :: "val list \<Rightarrow> error + (val \<times> val list)" where
  "pop stack = (if stack = [] then Inl IndexError else Inr (last stack, butlast stack))"

text \<open>\<^verbatim>\<open>b, a = stack.pop(), stack.pop()\<close> followed by \<^verbatim>\<open>stack.append(a OP b)\<close>.\<close>

definition binop :: "(val \<Rightarrow> val \<Rightarrow> error + val) \<Rightarrow> val list \<Rightarrow> error + val list" where
  "binop f stack =
     (case pop stack of
        Inl e \<Rightarrow> Inl e
      | Inr (b, stack1) \<Rightarrow>
          (case pop stack1 of
             Inl e \<Rightarrow> Inl e
           | Inr (a, stack2) \<Rightarrow>
               (case f a b of Inl e \<Rightarrow> Inl e | Inr r \<Rightarrow> Inr (stack2 @ [r]))))"

text \<open>One round of the \<^verbatim>\<open>for token in tokens\<close> loop (lines 90-114), in the order of its
  \<^verbatim>\<open>if\<close>/\<^verbatim>\<open>elif\<close> chain.\<close>

definition eval_token :: "(string \<rightharpoonup> val) \<Rightarrow> val list \<Rightarrow> string \<Rightarrow> error + val list" where
  "eval_token c stack token =
     (if isdigit token then
        (case py_int token of Inl e \<Rightarrow> Inl e | Inr n \<Rightarrow> Inr (stack @ [VInt n]))
      else (case c token of
        Some x \<Rightarrow> Inr (stack @ [x])
      | None \<Rightarrow>
          if token = ''+'' then binop py_add stack
          else if token = ''-'' then binop py_sub stack
          else if token = ''*'' then binop py_mul stack
          else if token = ''/'' then binop py_floordiv stack
          else if token = ''mod'' then binop py_mod stack
          else if token = ''max'' then binop py_max stack
          else Inl (SyntaxError (''Unknown token in expression: '' @ token))))"

fun eval_tokens :: "(string \<rightharpoonup> val) \<Rightarrow> val list \<Rightarrow> string list \<Rightarrow> error + val list" where
  "eval_tokens c stack [] = Inr stack"
| "eval_tokens c stack (token # tokens) =
     (case eval_token c stack token of
        Inl e \<Rightarrow> Inl e
      | Inr stack' \<Rightarrow> eval_tokens c stack' tokens)"

text \<open>
  \<^verbatim>\<open>evaluate_expression\<close> (lines 82-120). A call returns its outcome, an exception or the
  result, together with the parser object as the call leaves it. The result is printed
  on a line of its own.
\<close>

definition evaluate_expression :: "config_parser \<Rightarrow> string \<Rightarrow> (error + val) \<times> config_parser" where
  "evaluate_expression self expression =
     (case eval_tokens (constants self) [] (split_ws expression) of
        Inl e \<Rightarrow> (Inl e, self)
      | Inr stack \<Rightarrow>
          if length stack \<noteq> 1
          then (Inl (SyntaxError (''Invalid expression: '' @ expression)), self)
          else (Inr (last stack),
                self\<lparr>stdout := stdout self @ [''Result of expression: '' @ str_val (last stack)]\<rparr>))"

section \<open>The declaration parser\<close>

text \<open>
  \<^verbatim>\<open>re.match\<close> is a backtracking matcher anchored at the start of the line only. The
  pattern of \<^verbatim>\<open>parse_global\<close> is a sequence of single characters and greedy stars over
  character classes (\<^verbatim>\<open>x+\<close> is \<^verbatim>\<open>xx*\<close>), with marks where a group opens or closes. A
  greedy star first tries to take one more character and gives it back only when the rest
  of the pattern does not match. The result lists, for each mark, the input that was left
  when the mark was passed.
\<close>

datatype re_item = Ch "char \<Rightarrow> bool" | Star "char \<Rightarrow> bool" | Mark

fun re_match :: "re_item list \<Rightarrow> string \<Rightarrow> string list option" where
  "re_match [] s = Some []"
| "re_match (Mark # items) s = map_option (Cons s) (re_match items s)"
| "re_match (Ch p # items) [] = None"
| "re_match (Ch p # items) (c # cs) = (if p c then re_match items cs else None)"
| "re_match (Star p # items) [] = re_match items []"
| "re_match (Star p # items) (c # cs) =
     (if p c then (case re_match (Star p # items) cs of
                     Some r \<Rightarrow> Some r
                   | None \<Rightarrow> re_match items (c # cs))
      else re_match items (c # cs))"

text \<open>\<^verbatim>\<open>global\s+([_a-zA-Z][_a-zA-Z0-9]*)\s*=\s*(.+);\<close>\<close>

definition global_re :: "re_item list" where
  "global_re =
     map (\<lambda>c. Ch (\<lambda>x. x = c)) ''global'' @
     [Ch is_space, Star is_space,
      Mark, Ch ident_start, Star ident_char, Mark,
      Star is_space, Ch (\<lambda>x. x = CHR ''=''), Star is_space,
      Mark, Ch dot, Star dot, Mark,
      Ch (\<lambda>x. x = CHR '';'')]"

text \<open>\<^verbatim>\<open>match.groups()\<close>: the text between the marks of each group.\<close>

definition match_global :: "string \<Rightarrow> (string \<times> string) option" where
  "match_global line =
     (case re_match global_re line of
        Some [m1, m2, m3, m4] \<Rightarrow>
          Some (take (length m1 - length m2) m1, take (length m3 - length m4) m3)
      | _ \<Rightarrow> None)"

section \<open>The document builder\<close>

text \<open>The loop of \<^verbatim>\<open>add_to_xml\<close> over the elements of a list value.\<close>

fun add_values :: "xml \<Rightarrow> val list \<Rightarrow> xml" where
  "add_values element [] = element"
| "add_values element (v # vs) =
     add_values (append_child element (Element ''value'' [] (Some (str_val v)) [])) vs"

text \<open>\<^verbatim>\<open>add_to_xml\<close> (lines 122-132).\<close>

definition add_to_xml :: "config_parser \<Rightarrow> string \<Rightarrow> val \<Rightarrow> config_parser" where
  "add_to_xml self name v =
     (let element = Element ''constant'' [(''name'', name)] None [] in
      self\<lparr>xml_root := append_child (xml_root self)
        (case v of
           VList vs \<Rightarrow> add_values element vs
         | VInt i \<Rightarrow> Element (tag element) (attrib element) (Some (str_val v)) (children element))\<rparr>)"

text \<open>\<^verbatim>\<open>parse_global\<close> (lines 38-54).\<close>

definition parse_global :: "config_parser \<Rightarrow> string \<Rightarrow> (error + unit) \<times> config_parser" where
  "parse_global self line =
     (case match_global line of
        None \<Rightarrow> (Inl (SyntaxError (''Invalid global declaration: '' @ line)), self)
      | Some (name, v) \<Rightarrow>
          (case parse_value (constants self) v of
             Inl e \<Rightarrow> (Inl e, self)
           | Inr x \<Rightarrow>
               (Inr (), add_to_xml (self\<lparr>constants := (constants self)(name \<mapsto> x)\<rparr>) name x)))"

section \<open>The directive dispatcher\<close>

text \<open>\<^verbatim>\<open>parse_line\<close> (lines 21-36); \<^verbatim>\<open>line[1:]\<close> is \<open>tl line\<close>.\<close>

definition parse_line :: "config_parser \<Rightarrow> string \<Rightarrow> (error + unit) \<times> config_parser" where
  "parse_line self line =
     (if line = [] \<or> startswith line ''#'' then (Inr (), self)
      else if startswith line ''global '' then parse_global self line
      else if startswith line ''^'' then
        (case evaluate_expression self (tl line) of
           (Inl e, self') \<Rightarrow> (Inl e, self')
         | (Inr r, self') \<Rightarrow> (Inr (), self'))
      else (Inl (SyntaxError (''Unknown syntax: '' @ line)), self))"

text \<open>The loop of \<^verbatim>\<open>parse_file\<close> (lines 18-19) over the lines read from the file; the
  first exception ends it.\<close>

fun parse_file :: "config_parser \<Rightarrow> string list \<Rightarrow> (error + unit) \<times> config_parser" where
  "parse_file self [] = (Inr (), self)"
| "parse_file self (line # lines) =
     (case parse_line self (strip line) of
        (Inl e, self') \<Rightarrow> (Inl e, self')
      | (Inr u, self') \<Rightarrow> parse_file self' lines)"

section \<open>Notions used to state the properties\<close>

text \<open>A name as the regular expression of \<^verbatim>\<open>parse_global\<close> accepts it:
  \<^verbatim>\<open>[_a-zA-Z][_a-zA-Z0-9]*\<close>.\<close>

definition valid_ident :: "string \<Rightarrow> bool" where
  "valid_ident n \<longleftrightarrow> n \<noteq> [] \<and> ident_start (hd n) \<and> list_all ident_char (tl n)"

text \<open>Every key of the symbol table is such a name. The table starts empty and only
  \<^verbatim>\<open>parse_global\<close> writes to it, so this holds in every state the parser reaches
  (\<open>parse_file_ident_keys\<close> below).\<close>

definition ident_keys :: "(string \<rightharpoonup> val) \<Rightarrow> bool" where
  "ident_keys c \<longleftrightarrow> (\<forall>k \<in> dom c. valid_ident k)"

text \<open>
  The document node of a declaration as the specification describes it (sections 3 and
  4.5): the node carries the declared name; for an integer its text is the decimal
  string; for a list it has one \<^verbatim>\<open>value\<close> child per element, in order, and a nested
  list gives a nested group of \<^verbatim>\<open>value\<close> children. This definition follows the
  specification, not \<^verbatim>\<open>add_to_xml\<close>; the two are compared below.
\<close>

fun spec_value_node :: "string \<Rightarrow> (string \<times> string) list \<Rightarrow> val \<Rightarrow> xml" where
  "spec_value_node t attrs (VInt i) = Element t attrs (Some (str_int i)) []"
| "spec_value_node t attrs (VList vs) =
     Element t attrs None (map (spec_value_node ''value'' []) vs)"

definition spec_node :: "string \<Rightarrow> val \<Rightarrow> xml" where
  "spec_node n x = spec_value_node ''constant'' [(''name'', n)] x"

text \<open>An integer, or a list whose elements are all integers.\<close>

fun is_VInt :: "val \<Rightarrow> bool" where
  "is_VInt (VInt i) = True"
| "is_VInt (VList vs) = False"

fun flat :: "val \<Rightarrow> bool" where
  "flat (VInt i) = True"
| "flat (VList vs) = list_all is_VInt vs"

section \<open>Unfolding the parser on given text\<close>

lemma parse_value_array:
  "startswith v ''array('' \<Longrightarrow> endswith v '')'' \<Longrightarrow>
   parse_value c v =
     (case collect (map (\<lambda>p. parse_value c (strip p))
                        (split_on CHR '','' (drop 6 (butlast v)))) of
        Inl e \<Rightarrow> Inl e
      | Inr vs \<Rightarrow> Inr (VList vs))"
  by (subst parse_value.simps) (simp add: parse_array.simps)

lemma parse_value_scalar:
  "\<not> (startswith v ''array('' \<and> endswith v '')'') \<Longrightarrow>
   parse_value c v =
     (if isdigit v then (case py_int v of Inl e \<Rightarrow> Inl e | Inr n \<Rightarrow> Inr (VInt n))
      else (case c v of
              Some x \<Rightarrow> Inr x
            | None \<Rightarrow> Inl (SyntaxError (''Invalid value: '' @ v))))"
  by (subst parse_value.simps) auto

lemmas text_defs = is_space_def ascii_digit_def is_digit_def isdigit_def ident_start_def
  ident_char_def dot_def endswith_def strip_def py_int_def digit_val_def

lemmas parse_defs = parse_value_array parse_value_scalar text_defs

lemmas line_defs = init_def parse_line_def parse_global_def match_global_def global_re_def
  add_to_xml_def append_child_def

lemmas eval_defs = evaluate_expression_def split_ws_def eval_token_def binop_def pop_def
  py_add_def py_sub_def py_mul_def py_floordiv_def py_mod_def py_max_def
  str_int_def str_nat.simps

section \<open>Splitting an array literal\<close>

lemma split_on_not_Nil: "split_on sep s \<noteq> []"
  by (induction s) (auto split: list.splits)

lemma split_on_no_sep: "sep \<notin> set a \<Longrightarrow> split_on sep a = [a]"
  by (induction a) auto

lemma split_on_append:
  "sep \<notin> set a \<Longrightarrow> split_on sep (a @ sep # b) = a # split_on sep b"
  by (induction a) auto

lemma split_on_join:
  assumes "es \<noteq> []" and "\<forall>e \<in> set es. sep \<notin> set e"
  shows "split_on sep (join [sep] es) = es"
  using assms
proof (induction "[sep]" es rule: join.induct)
  case 1
  then show ?case by simp
next
  case (2 p)
  then show ?case by (simp add: split_on_no_sep)
next
  case (3 p q ps)
  then show ?case by (simp add: split_on_append)
qed

lemma array_form: "startswith (''array('' @ body @ '')'') ''array('' \<and>
    endswith (''array('' @ body @ '')'') '')'' \<and>
    drop 6 (butlast (''array('' @ body @ '')'')) = body"
  by (simp add: endswith_def butlast_append)

text \<open>
  C1, as the code has it. \<^verbatim>\<open>parse_array\<close> splits the interior of \<^verbatim>\<open>array(...)\<close> at
  every comma. For a literal with one or more elements, none of which contains a comma,
  the pieces are the elements: the literal parses to the list of the values of its
  trimmed elements, in order, and fails with the first failure among them. An element
  may be a nested \<^verbatim>\<open>array(...)\<close> as long as it holds no comma; its nesting is kept.
\<close>

theorem parse_array_literal:
  assumes "es \<noteq> []" and "\<forall>e \<in> set es. CHR '','' \<notin> set e"
  shows "parse_value c (''array('' @ join '','' es @ '')'') =
           (case collect (map (\<lambda>e. parse_value c (strip e)) es) of
              Inl e \<Rightarrow> Inl e
            | Inr vs \<Rightarrow> Inr (VList vs))"
proof -
  have "split_on CHR '','' (join '','' es) = es"
    using assms by (rule split_on_join)
  then show ?thesis
    using array_form [of "join '','' es"] by (simp add: parse_value_array)
qed

theorem parse_array_literal_witness:
  "CHR '','' \<notin> set ''array(1)'' \<and> CHR '','' \<notin> set '' 2'' \<and> CHR '','' \<notin> set ''x'' \<and>
   parse_value [''x'' \<mapsto> VInt 10] ''array(array(1), 2,x)'' =
     Inr (VList [VList [VInt 1], VInt 2, VInt 10])"
  using parse_array_literal [of "[''array(1)'', '' 2'', ''x'']" "[''x'' \<mapsto> VInt 10]"]
  by (simp add: parse_defs)

text \<open>
  C1 as stated fails: the comma inside a nested array is a split point too. The elements
  \<^verbatim>\<open>array(1,2)\<close>, \<^verbatim>\<open>3\<close> and \<^verbatim>\<open>4\<close> parse on their own, and the literal
  \<^verbatim>\<open>array(array(1,2),3,4)\<close> built from them is rejected at its first piece \<^verbatim>\<open>array(1\<close>.
\<close>

theorem nested_array_counterexample:
  "parse_value Map.empty ''array(1,2)'' = Inr (VList [VInt 1, VInt 2]) \<and>
   parse_value Map.empty ''3'' = Inr (VInt 3) \<and>
   parse_value Map.empty ''4'' = Inr (VInt 4) \<and>
   parse_value Map.empty ''array(array(1,2),3,4)'' \<noteq>
     Inr (VList [VList [VInt 1, VInt 2], VInt 3, VInt 4]) \<and>
   parse_value Map.empty ''array(array(1,2),3,4)'' =
     Inl (SyntaxError ''Invalid value: array(1'')"
  by (simp add: parse_defs)

text \<open>
  C2. The line \<^verbatim>\<open>global z = array();\<close> in a fresh parser: the interior of the literal is
  the empty string, \<^verbatim>\<open>"".split(",")\<close> is one empty piece, and \<^verbatim>\<open>parse_value("")\<close> raises.
  The symbol table and the document are left as they were.
\<close>

theorem empty_array_rejected:
  "parse_file init [''global z = array();''] = (Inl (SyntaxError ''Invalid value: ''), init)"
  by (simp add: line_defs parse_defs)

section \<open>Matching a declaration\<close>

lemma re_Star_greedy:
  assumes "list_all p w" and "s = [] \<or> \<not> p (hd s)" and "re_match items s = Some r"
  shows "re_match (Star p # items) (w @ s) = Some r"
  using assms
proof (induction w)
  case Nil
  then show ?case by (cases s) auto
next
  case (Cons c w)
  then show ?case by simp
qed

lemma re_value_fail:
  "CHR '';'' \<notin> set t \<Longrightarrow> re_match [Star dot, Mark, Ch (\<lambda>x. x = CHR '';'')] t = None"
  by (induction t) auto

lemma re_value_last:
  assumes "list_all dot w" and "CHR '';'' \<notin> set t"
  shows "re_match [Star dot, Mark, Ch (\<lambda>x. x = CHR '';'')] (w @ CHR '';'' # t) = Some [CHR '';'' # t]"
  using assms
proof (induction w)
  case Nil
  have "dot CHR '';''" by (simp add: dot_def)
  with Nil show ?case by (simp add: re_value_fail)
next
  case (Cons c w)
  then show ?case by simp
qed

lemma not_space_ident_start: "ident_start c \<Longrightarrow> \<not> is_space c"
  by (auto simp: ident_start_def is_space_def)

lemma not_space_digit: "is_digit c \<Longrightarrow> \<not> is_space c"
  by (auto simp: is_digit_def ascii_digit_def is_space_def)

lemma match_global_form:
  assumes n: "valid_ident n"
    and ws1: "ws1 \<noteq> []" "list_all is_space ws1"
    and ws2: "list_all is_space ws2"
    and ws3: "list_all is_space ws3"
    and v: "v \<noteq> []" "\<not> is_space (hd v)" "list_all dot v"
    and t: "CHR '';'' \<notin> set t"
  shows "match_global (''global'' @ ws1 @ n @ ws2 @ ''='' @ ws3 @ v @ '';'' @ t) = Some (n, v)"
proof -
  let ?semi = "Ch (\<lambda>x. x = CHR '';'')"
  let ?eq = "Ch (\<lambda>x. x = CHR ''='')"
  obtain c cs where n_eq: "n = c # cs" and c: "ident_start c" and cs: "list_all ident_char cs"
    using n by (cases n) (auto simp: valid_ident_def)
  obtain d ds where v_eq: "v = d # ds" and d: "\<not> is_space d" "dot d" and ds: "list_all dot ds"
    using v by (cases v) auto
  obtain b bs where ws1_eq: "ws1 = b # bs" and b: "is_space b" and bs: "list_all is_space bs"
    using ws1 by (cases ws1) auto
  let ?m4 = "CHR '';'' # t"
  let ?m3 = "v @ ?m4"
  let ?m2 = "ws2 @ CHR ''='' # ws3 @ ?m3"
  let ?m1 = "n @ ?m2"
  have s5: "re_match [Ch dot, Star dot, Mark, ?semi] ?m3 = Some [?m4]"
    using re_value_last [OF ds t] d by (simp add: v_eq)
  have s4: "re_match [Star is_space, Mark, Ch dot, Star dot, Mark, ?semi] (ws3 @ ?m3)
            = Some [?m3, ?m4]"
    by (rule re_Star_greedy [OF ws3]) (use d s5 in \<open>simp_all add: v_eq\<close>)
  have s3: "re_match [Star is_space, ?eq, Star is_space, Mark, Ch dot, Star dot, Mark, ?semi] ?m2
            = Some [?m3, ?m4]"
    by (rule re_Star_greedy [OF ws2]) (use s4 in \<open>simp_all add: is_space_def\<close>)
  have s2: "re_match [Star ident_char, Mark, Star is_space, ?eq, Star is_space,
                      Mark, Ch dot, Star dot, Mark, ?semi] (cs @ ?m2)
            = Some [?m2, ?m3, ?m4]"
  proof (rule re_Star_greedy [OF cs])
    show "?m2 = [] \<or> \<not> ident_char (hd ?m2)"
      using ws2 by (cases ws2) (auto simp: ident_char_def ident_start_def ascii_digit_def is_space_def)
    show "re_match [Mark, Star is_space, ?eq, Star is_space,
                      Mark, Ch dot, Star dot, Mark, ?semi] ?m2 = Some [?m2, ?m3, ?m4]"
      using s3 by simp
  qed
  have s1: "re_match [Star is_space, Mark, Ch ident_start, Star ident_char, Mark, Star is_space,
                      ?eq, Star is_space, Mark, Ch dot, Star dot, Mark, ?semi] (bs @ ?m1)
            = Some [?m1, ?m2, ?m3, ?m4]"
    by (rule re_Star_greedy [OF bs]) (use c s2 not_space_ident_start in \<open>simp_all add: n_eq\<close>)
  have "re_match global_re (''global'' @ ws1 @ ?m1) = Some [?m1, ?m2, ?m3, ?m4]"
    using s1 b by (simp add: global_re_def ws1_eq)
  then show ?thesis by (simp add: match_global_def)
qed

lemma re_Star_elim:
  "re_match (Star p # items) s = Some r \<Longrightarrow>
   \<exists>w s'. s = w @ s' \<and> list_all p w \<and> re_match items s' = Some r"
proof (induction s)
  case Nil
  then show ?case by simp
next
  case (Cons c cs)
  show ?case
  proof (cases "p c \<and> re_match (Star p # items) cs \<noteq> None")
    case True
    with Cons.prems have "re_match (Star p # items) cs = Some r" by auto
    then obtain w s' where "cs = w @ s'" "list_all p w" "re_match items s' = Some r"
      using Cons.IH by blast
    with True have "c # cs = (c # w) @ s' \<and> list_all p (c # w) \<and> re_match items s' = Some r"
      by simp
    then show ?thesis by blast
  next
    case False
    with Cons.prems have "re_match items (c # cs) = Some r" by (auto split: if_splits)
    then have "c # cs = [] @ (c # cs) \<and> list_all p [] \<and> re_match items (c # cs) = Some r"
      by simp
    then show ?thesis by blast
  qed
qed

lemma re_Ch_elim:
  "re_match (Ch p # items) s = Some r \<Longrightarrow> \<exists>c cs. s = c # cs \<and> p c \<and> re_match items cs = Some r"
  by (cases s) (auto split: if_splits)

lemma match_global_valid_ident:
  assumes "match_global line = Some (n, v)"
  shows "valid_ident n"
proof -
  let ?tail = "[Star is_space, Ch (\<lambda>x. x = CHR ''=''), Star is_space,
      Mark, Ch dot, Star dot, Mark, Ch (\<lambda>x. x = CHR '';'')]"
  from assms obtain m1 m2 m3 m4 where r: "re_match global_re line = Some [m1, m2, m3, m4]"
    and n: "n = take (length m1 - length m2) m1"
    by (auto simp: match_global_def split: option.splits list.splits)
  from r obtain s0 where
    "re_match (Star is_space # Mark # Ch ident_start # Star ident_char # Mark # ?tail) s0
       = Some [m1, m2, m3, m4]"
    unfolding global_re_def by (auto dest!: re_Ch_elim)
  then obtain s1 where
    "re_match (Mark # Ch ident_start # Star ident_char # Mark # ?tail) s1 = Some [m1, m2, m3, m4]"
    by (blast dest: re_Star_elim)
  then have m1: "m1 = s1"
    and "re_match (Ch ident_start # Star ident_char # Mark # ?tail) s1 = Some [m2, m3, m4]"
    by auto
  then obtain c cs where s1: "s1 = c # cs" and c: "ident_start c"
    and "re_match (Star ident_char # Mark # ?tail) cs = Some [m2, m3, m4]"
    by (blast dest: re_Ch_elim)
  then obtain w s2 where cs: "cs = w @ s2" and w: "list_all ident_char w"
    and "re_match (Mark # ?tail) s2 = Some [m2, m3, m4]"
    by (blast dest: re_Star_elim)
  then have "m2 = s2" by auto
  with m1 s1 cs n have "n = c # w" by simp
  with c w show ?thesis by (simp add: valid_ident_def)
qed

section \<open>Declarations\<close>

lemma parse_value_ok_head:
  assumes "ident_keys c" and "parse_value c v = Inr x"
  shows "v \<noteq> [] \<and> \<not> is_space (hd v)"
proof (cases "startswith v ''array('' \<and> endswith v '')''")
  case True
  then show ?thesis by (cases v) (auto simp: is_space_def)
next
  case False
  show ?thesis
  proof (cases "isdigit v")
    case True
    then show ?thesis by (cases v) (auto simp: isdigit_def not_space_digit)
  next
    case False
    with \<open>\<not> (startswith v ''array('' \<and> endswith v '')'')\<close> assms(2)
    have "c v \<noteq> None" by (auto simp: parse_value_scalar split: option.splits)
    then have "valid_ident v" using assms(1) by (auto simp: ident_keys_def)
    then show ?thesis by (auto simp: valid_ident_def not_space_ident_start)
  qed
qed

lemma add_values_children:
  "add_values e vs =
     Element (tag e) (attrib e) (etext e)
       (children e @ map (\<lambda>v. Element ''value'' [] (Some (str_val v)) []) vs)"
  by (induction vs arbitrary: e) (simp_all add: append_child_def)

lemma flat_value_nodes:
  "list_all is_VInt vs \<Longrightarrow>
   map (\<lambda>v. Element ''value'' [] (Some (str_val v)) []) vs = map (spec_value_node ''value'' []) vs"
proof (induction vs)
  case Nil
  then show ?case by simp
next
  case (Cons v vs)
  then show ?case by (cases v) simp_all
qed

lemma add_to_xml_fields:
  "constants (add_to_xml self n x) = constants self \<and> stdout (add_to_xml self n x) = stdout self"
  by (simp add: add_to_xml_def Let_def)

lemma add_to_xml_appends:
  "\<exists>e. xml_root (add_to_xml self n x) = append_child (xml_root self) e \<and>
       tag e = ''constant'' \<and> attrib e = [(''name'', n)] \<and> (flat x \<longrightarrow> e = spec_node n x)"
proof (cases x)
  case (VInt i)
  then show ?thesis by (simp add: add_to_xml_def spec_node_def)
next
  case (VList vs)
  let ?e = "Element ''constant'' [(''name'', n)] None
              (map (\<lambda>v. Element ''value'' [] (Some (str_val v)) []) vs)"
  have "xml_root (add_to_xml self n x) = append_child (xml_root self) ?e"
    using VList by (simp add: add_to_xml_def add_values_children)
  moreover have "flat x \<longrightarrow> ?e = spec_node n x"
    using VList by (simp add: spec_node_def flat_value_nodes)
  moreover have "tag ?e = ''constant'' \<and> attrib ?e = [(''name'', n)]"
    by simp
  ultimately show ?thesis by blast
qed

lemma parse_global_match:
  "match_global line = Some (n, v) \<Longrightarrow>
   parse_global self line =
     (case parse_value (constants self) v of
        Inl e \<Rightarrow> (Inl e, self)
      | Inr x \<Rightarrow> (Inr (), add_to_xml (self\<lparr>constants := (constants self)(n \<mapsto> x)\<rparr>) n x))"
  by (simp add: parse_global_def split: sum.splits)

lemma parse_line_global:
  "startswith line ''global '' \<Longrightarrow> parse_line self line = parse_global self line"
  by (cases line) (auto simp: parse_line_def)

lemma parse_line_declaration:
  assumes n: "valid_ident n"
    and keys: "ident_keys (constants self)"
    and nl: "CHR 0x0A \<notin> set v"
    and ok: "parse_value (constants self) v = Inr x"
    and t: "CHR '';'' \<notin> set t"
  shows "parse_line self (''global '' @ n @ '' = '' @ v @ '';'' @ t) =
           (Inr (), add_to_xml (self\<lparr>constants := (constants self)(n \<mapsto> x)\<rparr>) n x)"
proof -
  have v: "v \<noteq> []" "\<not> is_space (hd v)"
    using parse_value_ok_head [OF keys ok] by simp_all
  have dots: "list_all dot v"
    using nl by (auto simp: list_all_iff dot_def)
  have sp: "list_all is_space '' ''" "'' '' \<noteq> []"
    by (simp_all add: is_space_def)
  have "match_global (''global'' @ '' '' @ n @ '' '' @ ''='' @ '' '' @ v @ '';'' @ t) = Some (n, v)"
    by (rule match_global_form [OF n sp(2) sp(1) sp(1) sp(1) v dots t])
  then have m: "match_global (''global '' @ n @ '' = '' @ v @ '';'' @ t) = Some (n, v)"
    by simp
  have "startswith (''global '' @ n @ '' = '' @ v @ '';'' @ t) ''global ''"
    by simp
  then show ?thesis
    using m ok by (simp add: parse_line_global parse_global_match)
qed

lemma parse_global_ident_keys:
  assumes "ident_keys (constants self)"
  shows "ident_keys (constants (snd (parse_global self line)))"
proof (cases "match_global line")
  case None
  with assms show ?thesis by (simp add: parse_global_def)
next
  case (Some nv)
  obtain n v where nv: "nv = (n, v)" by (cases nv)
  with Some have "valid_ident n" by (auto dest: match_global_valid_ident)
  with assms Some nv show ?thesis
    by (auto simp: parse_global_match add_to_xml_fields ident_keys_def split: sum.splits)
qed

lemma evaluate_expression_frame:
  "constants (snd (evaluate_expression self e)) = constants self \<and>
   xml_root (snd (evaluate_expression self e)) = xml_root self"
  by (simp add: evaluate_expression_def split: sum.splits)

lemma parse_line_ident_keys:
  assumes "ident_keys (constants self)"
  shows "ident_keys (constants (snd (parse_line self line)))"
  using assms parse_global_ident_keys [OF assms, of line] evaluate_expression_frame [of self "tl line"]
  by (auto simp: parse_line_def split: prod.splits sum.splits)

lemma parse_file_ident_keys:
  "ident_keys (constants self) \<Longrightarrow> ident_keys (constants (snd (parse_file self lines)))"
proof (induction lines arbitrary: self)
  case Nil
  then show ?case by simp
next
  case (Cons l ls)
  from Cons.prems have k: "ident_keys (constants (snd (parse_line self (strip l))))"
    by (rule parse_line_ident_keys)
  show ?case
  proof (cases "parse_line self (strip l)")
    case (Pair r self')
    with k Cons.IH [of self'] show ?thesis by (cases r) simp_all
  qed
qed

lemma init_ident_keys: "ident_keys (constants init)"
  by (simp add: init_def ident_keys_def)

section \<open>Properties of declarations\<close>

text \<open>
  C3, as the code has it. In a state whose table keys are identifiers (every state the
  parser reaches), a line \<^verbatim>\<open>global n = v;\<close> with an identifier \<open>n\<close> and a one-line literal
  \<open>v\<close> that parses to \<open>x\<close> succeeds: afterwards the table maps \<open>n\<close> to \<open>x\<close> and is otherwise
  as before, and the document has exactly one more node, a \<^verbatim>\<open>constant\<close> element named
  \<open>n\<close>, after the ones it had. When \<open>x\<close> is an integer or a list of integers the node is
  the one the specification describes. The two lines \<^verbatim>\<open>global x = 10;\<close> and
  \<^verbatim>\<open>global y = array(1, 2, x);\<close> give the table \<^verbatim>\<open>{x: 10, y: [1, 2, 10]}\<close> and a document
  with two child nodes.
\<close>

theorem declaration_binds:
  "(valid_ident n \<and> ident_keys (constants self) \<and> CHR 0x0A \<notin> set v \<and>
    parse_value (constants self) v = Inr x \<longrightarrow>
      fst (parse_line self (''global '' @ n @ '' = '' @ v @ '';'')) = Inr () \<and>
      constants (snd (parse_line self (''global '' @ n @ '' = '' @ v @ '';''))) = (constants self)(n \<mapsto> x) \<and>
      stdout (snd (parse_line self (''global '' @ n @ '' = '' @ v @ '';''))) = stdout self \<and>
      (\<exists>e. xml_root (snd (parse_line self (''global '' @ n @ '' = '' @ v @ '';''))) = append_child (xml_root self) e \<and>
           tag e = ''constant'' \<and> attrib e = [(''name'', n)] \<and>
           (flat x \<longrightarrow> e = spec_node n x))) \<and>
   parse_file init [''global x = 10;'', ''global y = array(1, 2, x);''] =
     (Inr (),
      \<lparr>constants = [''x'' \<mapsto> VInt 10, ''y'' \<mapsto> VList [VInt 1, VInt 2, VInt 10]],
       xml_root = Element ''config'' [] None
         [Element ''constant'' [(''name'', ''x'')] (Some ''10'') [],
          Element ''constant'' [(''name'', ''y'')] None
            [Element ''value'' [] (Some ''1'') [],
             Element ''value'' [] (Some ''2'') [],
             Element ''value'' [] (Some ''10'') []]],
       stdout = []\<rparr>)"
proof (intro conjI impI)
  assume h: "valid_ident n \<and> ident_keys (constants self) \<and> CHR 0x0A \<notin> set v \<and>
    parse_value (constants self) v = Inr x"
  let ?s = "self\<lparr>constants := (constants self)(n \<mapsto> x)\<rparr>"
  have "parse_line self (''global '' @ n @ '' = '' @ v @ '';'' @ []) = (Inr (), add_to_xml ?s n x)"
    using h by (intro parse_line_declaration) simp_all
  then have r: "parse_line self (''global '' @ n @ '' = '' @ v @ '';'') = (Inr (), add_to_xml ?s n x)"
    by simp
  show "fst (parse_line self (''global '' @ n @ '' = '' @ v @ '';'')) = Inr ()"
    using r by simp
  show "constants (snd (parse_line self (''global '' @ n @ '' = '' @ v @ '';''))) = (constants self)(n \<mapsto> x)"
    using r add_to_xml_fields [of ?s n x] by simp
  show "stdout (snd (parse_line self (''global '' @ n @ '' = '' @ v @ '';''))) = stdout self"
    using r add_to_xml_fields [of ?s n x] by simp
  show "\<exists>e. xml_root (snd (parse_line self (''global '' @ n @ '' = '' @ v @ '';''))) = append_child (xml_root self) e \<and>
           tag e = ''constant'' \<and> attrib e = [(''name'', n)] \<and>
           (flat x \<longrightarrow> e = spec_node n x)"
    using r add_to_xml_appends [of ?s n x] by simp
next
  show "parse_file init [''global x = 10;'', ''global y = array(1, 2, x);''] =
     (Inr (),
      \<lparr>constants = [''x'' \<mapsto> VInt 10, ''y'' \<mapsto> VList [VInt 1, VInt 2, VInt 10]],
       xml_root = Element ''config'' [] None
         [Element ''constant'' [(''name'', ''x'')] (Some ''10'') [],
          Element ''constant'' [(''name'', ''y'')] None
            [Element ''value'' [] (Some ''1'') [],
             Element ''value'' [] (Some ''2'') [],
             Element ''value'' [] (Some ''10'') []]],
       stdout = []\<rparr>)"
    by (simp add: line_defs parse_defs str_int_def str_nat.simps)
qed

theorem declaration_binds_witness:
  "valid_ident ''y'' \<and> ident_keys [''x'' \<mapsto> VInt 10] \<and>
   parse_value [''x'' \<mapsto> VInt 10] ''array(1, 2, x)'' = Inr (VList [VInt 1, VInt 2, VInt 10]) \<and>
   flat (VList [VInt 1, VInt 2, VInt 10]) \<and>
   constants (snd (parse_line (init\<lparr>constants := [''x'' \<mapsto> VInt 10]\<rparr>)
                      ''global y = array(1, 2, x);'')) ''y''
     = Some (VList [VInt 1, VInt 2, VInt 10]) \<and>
   xml_root (snd (parse_line (init\<lparr>constants := [''x'' \<mapsto> VInt 10]\<rparr>)
                      ''global y = array(1, 2, x);''))
     = append_child (xml_root init) (spec_node ''y'' (VList [VInt 1, VInt 2, VInt 10]))"
proof -
  let ?self = "init\<lparr>constants := [''x'' \<mapsto> VInt 10]\<rparr>"
  let ?x = "VList [VInt 1, VInt 2, VInt 10]"
  let ?line = "''global y = array(1, 2, x);''"
  have n: "valid_ident ''y''"
    by (simp add: valid_ident_def ident_start_def)
  have k: "ident_keys [''x'' \<mapsto> VInt 10]"
    by (simp add: ident_keys_def valid_ident_def ident_start_def)
  have p: "parse_value [''x'' \<mapsto> VInt 10] ''array(1, 2, x)'' = Inr ?x"
    by (simp add: parse_defs)
  have f: "flat ?x" by simp
  have nl: "CHR 0x0A \<notin> set ''array(1, 2, x)''" by simp
  have k': "ident_keys (constants ?self)" using k by simp
  have p': "parse_value (constants ?self) ''array(1, 2, x)'' = Inr ?x" using p by simp
  have "fst (parse_line ?self ?line) = Inr () \<and>
      constants (snd (parse_line ?self ?line)) = (constants ?self)(''y'' \<mapsto> ?x) \<and>
      stdout (snd (parse_line ?self ?line)) = stdout ?self \<and>
      (\<exists>e. xml_root (snd (parse_line ?self ?line)) = append_child (xml_root ?self) e \<and>
           tag e = ''constant'' \<and> attrib e = [(''name'', ''y'')] \<and>
           (flat ?x \<longrightarrow> e = spec_node ''y'' ?x))"
    using declaration_binds [where n = "''y''" and v = "''array(1, 2, x)''" and self = ?self
        and x = ?x, THEN conjunct1, rule_format,
        OF conjI [OF n conjI [OF k' conjI [OF nl p']]]]
    unfolding append.simps .
  then have c: "constants (snd (parse_line ?self ?line)) = (constants ?self)(''y'' \<mapsto> ?x)"
    and "\<exists>e. xml_root (snd (parse_line ?self ?line)) = append_child (xml_root ?self) e \<and>
           (flat ?x \<longrightarrow> e = spec_node ''y'' ?x)"
    by blast+
  then have "xml_root (snd (parse_line ?self ?line)) =
               append_child (xml_root ?self) (spec_node ''y'' ?x)"
    using f by blast
  then have d: "xml_root (snd (parse_line ?self ?line)) =
               append_child (xml_root init) (spec_node ''y'' ?x)"
    by simp
  from c have "constants (snd (parse_line ?self ?line)) ''y'' = Some ?x"
    by simp
  with d n k p f show ?thesis by blast
qed

text \<open>
  C3 as stated fails for a list that holds a list. After \<^verbatim>\<open>global y = array(1, 2);\<close> the
  line \<^verbatim>\<open>global z = array(y, 3);\<close> binds \<^verbatim>\<open>z\<close> to \<^verbatim>\<open>[[1, 2], 3]\<close>, and \<^verbatim>\<open>add_to_xml\<close>
  writes the nested element as the text \<^verbatim>\<open>[1, 2]\<close> of one \<^verbatim>\<open>value\<close> child, where the
  specification has a nested group of \<^verbatim>\<open>value\<close> children.
\<close>

theorem nested_node_counterexample:
  "constants (snd (parse_file init [''global y = array(1, 2);'', ''global z = array(y, 3);'']))
     ''z'' = Some (VList [VList [VInt 1, VInt 2], VInt 3]) \<and>
   last (children (xml_root
     (snd (parse_file init [''global y = array(1, 2);'', ''global z = array(y, 3);'']))))
     = Element ''constant'' [(''name'', ''z'')] None
         [Element ''value'' [] (Some ''[1, 2]'') [],
          Element ''value'' [] (Some ''3'') []] \<and>
   spec_node ''z'' (VList [VList [VInt 1, VInt 2], VInt 3])
     = Element ''constant'' [(''name'', ''z'')] None
         [Element ''value'' [] None
            [Element ''value'' [] (Some ''1'') [],
             Element ''value'' [] (Some ''2'') []],
          Element ''value'' [] (Some ''3'') []] \<and>
   last (children (xml_root
     (snd (parse_file init [''global y = array(1, 2);'', ''global z = array(y, 3);'']))))
     \<noteq> spec_node ''z'' (VList [VList [VInt 1, VInt 2], VInt 3])"
  by (simp add: line_defs parse_defs spec_node_def str_int_def str_nat.simps)

text \<open>
  C7. A declaration line whose literal fails to parse leaves the parser as it was: the
  exception of \<^verbatim>\<open>parse_value\<close> leaves \<^verbatim>\<open>parse_global\<close> before the table is written and
  before the document is extended. Conversely, a declaration line changes the parser
  only when its whole literal has parsed.
\<close>

theorem declaration_atomic:
  assumes "startswith line ''global ''"
  shows "(match_global line = Some (n, v) \<and> parse_value (constants self) v = Inl e \<longrightarrow>
            parse_line self line = (Inl e, self)) \<and>
         (snd (parse_line self line) \<noteq> self \<longrightarrow>
            (\<exists>n v x. match_global line = Some (n, v) \<and> parse_value (constants self) v = Inr x \<and>
                     fst (parse_line self line) = Inr ()))"
proof (intro conjI impI)
  assume "match_global line = Some (n, v) \<and> parse_value (constants self) v = Inl e"
  then show "parse_line self line = (Inl e, self)"
    using assms by (simp add: parse_line_global parse_global_match)
next
  assume ch: "snd (parse_line self line) \<noteq> self"
  show "\<exists>n v x. match_global line = Some (n, v) \<and> parse_value (constants self) v = Inr x \<and>
                     fst (parse_line self line) = Inr ()"
  proof (cases "match_global line")
    case None
    with ch assms show ?thesis by (simp add: parse_line_global parse_global_def)
  next
    case (Some nv)
    obtain n' v' where nv: "nv = (n', v')" by (cases nv)
    show ?thesis
    proof (cases "parse_value (constants self) v'")
      case (Inl e')
      with ch assms Some nv show ?thesis by (simp add: parse_line_global parse_global_match)
    next
      case (Inr x')
      with assms Some nv show ?thesis by (simp add: parse_line_global parse_global_match)
    qed
  qed
qed

theorem declaration_atomic_witness:
  "startswith ''global y = array(1, q);'' ''global '' \<and>
   match_global ''global y = array(1, q);'' = Some (''y'', ''array(1, q)'') \<and>
   parse_value (constants init) ''array(1, q)'' = Inl (SyntaxError ''Invalid value: q'') \<and>
   parse_line init ''global y = array(1, q);'' = (Inl (SyntaxError ''Invalid value: q''), init)"
proof -
  have s: "startswith ''global y = array(1, q);'' ''global ''" by simp
  have m: "match_global ''global y = array(1, q);'' = Some (''y'', ''array(1, q)'')"
    by (simp add: match_global_def global_re_def text_defs)
  have p: "parse_value (constants init) ''array(1, q)'' = Inl (SyntaxError ''Invalid value: q'')"
    by (simp add: init_def parse_defs)
  show ?thesis
    using s m p declaration_atomic [OF s, where n = "''y''" and v = "''array(1, q)''"
        and self = init and e = "SyntaxError ''Invalid value: q''"]
    by simp
qed

text \<open>
  C10, as the code has it. The pattern of \<^verbatim>\<open>parse_global\<close> is anchored at the start of
  the line only, and its value group is greedy. Text after the \<^verbatim>\<open>;\<close> of a declaration
  line is ignored when it holds no further \<^verbatim>\<open>;\<close>: the line is processed exactly as the
  line that ends at that \<^verbatim>\<open>;\<close>, it succeeds, and the name is bound to the value of the
  literal.
\<close>

theorem trailing_text_ignored:
  assumes "valid_ident n" and "ident_keys (constants self)" and "CHR 0x0A \<notin> set v"
    and "parse_value (constants self) v = Inr x" and "CHR '';'' \<notin> set t"
  shows "parse_line self (''global '' @ n @ '' = '' @ v @ '';'' @ t) =
           parse_line self (''global '' @ n @ '' = '' @ v @ '';'') \<and>
         fst (parse_line self (''global '' @ n @ '' = '' @ v @ '';'' @ t)) = Inr () \<and>
         constants (snd (parse_line self (''global '' @ n @ '' = '' @ v @ '';'' @ t))) n = Some x"
proof -
  let ?s = "self\<lparr>constants := (constants self)(n \<mapsto> x)\<rparr>"
  have a: "parse_line self (''global '' @ n @ '' = '' @ v @ '';'' @ t) =
             (Inr (), add_to_xml ?s n x)"
    using assms by (rule parse_line_declaration)
  have "parse_line self (''global '' @ n @ '' = '' @ v @ '';'' @ []) =
          (Inr (), add_to_xml ?s n x)"
    using assms(1-4) by (rule parse_line_declaration) simp
  then have b: "parse_line self (''global '' @ n @ '' = '' @ v @ '';'') =
                  (Inr (), add_to_xml ?s n x)"
    by simp
  show ?thesis using a b add_to_xml_fields [of ?s n x] by simp
qed

theorem trailing_text_ignored_witness:
  "valid_ident ''x'' \<and> ident_keys (constants init) \<and>
   parse_value (constants init) ''10'' = Inr (VInt 10) \<and>
   parse_line init ''global x = 10; # ten'' = parse_line init ''global x = 10;'' \<and>
   fst (parse_line init ''global x = 10; # ten'') = Inr () \<and>
   constants (snd (parse_line init ''global x = 10; # ten'')) ''x'' = Some (VInt 10)"
proof -
  have n: "valid_ident ''x''"
    by (simp add: valid_ident_def ident_start_def)
  have p: "parse_value (constants init) ''10'' = Inr (VInt 10)"
    by (simp add: init_def parse_defs)
  have nl: "CHR 0x0A \<notin> set ''10''" and sem: "CHR '';'' \<notin> set '' # ten''"
    by simp_all
  have "parse_line init ''global x = 10; # ten'' = parse_line init ''global x = 10;'' \<and>
   fst (parse_line init ''global x = 10; # ten'') = Inr () \<and>
   constants (snd (parse_line init ''global x = 10; # ten'')) ''x'' = Some (VInt 10)"
    using trailing_text_ignored [OF n init_ident_keys nl p sem]
    unfolding append.simps .
  then show ?thesis
    using n p init_ident_keys by blast
qed

text \<open>
  C10 as stated fails when the trailing text holds a \<^verbatim>\<open>;\<close>. In \<^verbatim>\<open>global x = 10; y;\<close> the
  literal \<^verbatim>\<open>10\<close> has no \<^verbatim>\<open>;\<close> and parses, the value group extends to the last \<^verbatim>\<open>;\<close> of
  the line and captures \<^verbatim>\<open>10; y\<close>, and the line is rejected, while \<^verbatim>\<open>global x = 10;\<close>
  succeeds.
\<close>

theorem trailing_semicolon_counterexample:
  "CHR '';'' \<notin> set ''10'' \<and>
   parse_value (constants init) ''10'' = Inr (VInt 10) \<and>
   match_global ''global x = 10; y;'' = Some (''x'', ''10; y'') \<and>
   parse_line init ''global x = 10; y;'' = (Inl (SyntaxError ''Invalid value: 10; y''), init) \<and>
   fst (parse_line init ''global x = 10;'') = Inr ()"
  by (simp add: line_defs parse_defs)

section \<open>Properties of the evaluator and the dispatcher\<close>

lemma binop_two:
  "binop f (stack @ [a, b]) =
     (case f a b of Inl e \<Rightarrow> Inl e | Inr r \<Rightarrow> Inr (stack @ [r]))"
  by (simp add: binop_def pop_def butlast_append)

lemma ident_keys_None: "ident_keys c \<Longrightarrow> \<not> valid_ident k \<Longrightarrow> c k = None"
  by (auto simp: ident_keys_def)

lemma not_ident_symbols:
  "\<not> valid_ident ''+''" "\<not> valid_ident ''-''" "\<not> valid_ident ''*''" "\<not> valid_ident ''/''"
  "\<not> valid_ident ''-10''"
  by (simp_all add: valid_ident_def ident_start_def)

text \<open>
  C4. With integers \<open>a\<close> and \<open>b \<noteq> 0\<close> on top of the stack (\<open>b\<close> pushed last), the token
  \<^verbatim>\<open>/\<close> replaces them by the quotient rounded towards minus infinity, and the token
  \<^verbatim>\<open>mod\<close>, when no constant of that name shadows it, by the remainder of that division,
  which has the sign of the divisor. On \<open>-7\<close> and \<open>2\<close> (the stack of \<^verbatim>\<open>0 7 - 2\<close>) they give
  \<open>-4\<close> and \<open>1\<close>.
\<close>

theorem floor_division:
  assumes "b \<noteq> 0"
  shows "(ident_keys c \<longrightarrow>
            eval_token c (stack @ [VInt a, VInt b]) ''/'' =
              Inr (stack @ [VInt \<lfloor>real_of_int a / real_of_int b\<rfloor>])) \<and>
         (c ''mod'' = None \<longrightarrow>
            eval_token c (stack @ [VInt a, VInt b]) ''mod'' =
              Inr (stack @ [VInt (a - b * \<lfloor>real_of_int a / real_of_int b\<rfloor>)])) \<and>
         (0 < b \<longrightarrow> 0 \<le> a - b * \<lfloor>real_of_int a / real_of_int b\<rfloor> \<and>
                     a - b * \<lfloor>real_of_int a / real_of_int b\<rfloor> < b) \<and>
         (b < 0 \<longrightarrow> b < a - b * \<lfloor>real_of_int a / real_of_int b\<rfloor> \<and>
                     a - b * \<lfloor>real_of_int a / real_of_int b\<rfloor> \<le> 0) \<and>
         fst (evaluate_expression init '' 0 7 - 2 /'') = Inr (VInt (- 4)) \<and>
         fst (evaluate_expression init '' 0 7 - 2 mod'') = Inr (VInt 1)"
proof -
  have q: "\<lfloor>real_of_int a / real_of_int b\<rfloor> = a div b"
    by (rule floor_divide_of_int_eq)
  have r: "a - b * (a div b) = a mod b"
    by (simp add: minus_mult_div_eq_mod)
  have d: "ident_keys c \<Longrightarrow> eval_token c (stack @ [VInt a, VInt b]) ''/'' = Inr (stack @ [VInt (a div b)])"
    using assms ident_keys_None [of c "''/''"] not_ident_symbols
    by (simp add: eval_token_def isdigit_def is_digit_def ascii_digit_def binop_two py_floordiv_def)
  have m: "c ''mod'' = None \<Longrightarrow> eval_token c (stack @ [VInt a, VInt b]) ''mod'' = Inr (stack @ [VInt (a mod b)])"
    using assms
    by (simp add: eval_token_def isdigit_def is_digit_def ascii_digit_def binop_two py_mod_def)
  have e1: "fst (evaluate_expression init '' 0 7 - 2 /'') = Inr (VInt (- 4))"
    by (simp add: init_def eval_defs text_defs)
  have e2: "fst (evaluate_expression init '' 0 7 - 2 mod'') = Inr (VInt 1)"
    by (simp add: init_def eval_defs text_defs)
  show ?thesis
    unfolding q r using d m e1 e2 by (simp add: pos_mod_sign pos_mod_bound neg_mod_sign neg_mod_bound)
qed

theorem floor_division_witness:
  "eval_token Map.empty [VInt (- 7), VInt 2] ''/'' = Inr [VInt \<lfloor>real_of_int (- 7) / real_of_int 2\<rfloor>] \<and>
   \<lfloor>real_of_int (- 7) / real_of_int 2\<rfloor> = - 4 \<and>
   eval_token Map.empty [VInt (- 7), VInt 2] ''mod'' =
     Inr [VInt (- 7 - 2 * \<lfloor>real_of_int (- 7) / real_of_int 2\<rfloor>)] \<and>
   - 7 - 2 * \<lfloor>real_of_int (- 7) / real_of_int 2\<rfloor> = 1"
proof -
  have b: "(2::int) \<noteq> 0" by simp
  have k: "ident_keys Map.empty" by (simp add: ident_keys_def)
  have "\<lfloor>real_of_int (- 7) / real_of_int 2\<rfloor> = (- 7) div 2"
    by (rule floor_divide_of_int_eq)
  then have f: "\<lfloor>real_of_int (- 7) / real_of_int 2\<rfloor> = - 4"
    by simp
  from floor_division [OF b, where c = Map.empty and stack = "[]" and a = "- 7"] k
  have "eval_token Map.empty ([] @ [VInt (- 7), VInt 2]) ''/'' =
          Inr ([] @ [VInt \<lfloor>real_of_int (- 7) / real_of_int 2\<rfloor>])"
    and "eval_token Map.empty ([] @ [VInt (- 7), VInt 2]) ''mod'' =
          Inr ([] @ [VInt (- 7 - 2 * \<lfloor>real_of_int (- 7) / real_of_int 2\<rfloor>)])"
    by blast+
  then show ?thesis using f by simp
qed

text \<open>
  C5, as the code has it. In a state whose table keys are identifiers, the line
  \<^verbatim>\<open>^ 10 3 /\<close> prints the result 3. The line \<^verbatim>\<open>^ -10 3 /\<close> raises \<^verbatim>\<open>SyntaxError\<close> at the token
  \<^verbatim>\<open>-10\<close>, which is neither a digit string, nor a constant, nor an operator; nothing is
  printed. The quotient of \<open>-10\<close> and \<open>3\<close> is \<open>-4\<close> when \<open>-10\<close> is computed:
  \<^verbatim>\<open>^ 0 10 - 3 /\<close> prints \<open>-4\<close>.
\<close>

theorem expression_scenarios:
  assumes "ident_keys (constants self)"
  shows "parse_line self ''^ 10 3 /'' =
           (Inr (), self\<lparr>stdout := stdout self @ [''Result of expression: 3'']\<rparr>) \<and>
         evaluate_expression self '' 10 3 /'' =
           (Inr (VInt 3), self\<lparr>stdout := stdout self @ [''Result of expression: 3'']\<rparr>) \<and>
         parse_line self ''^ -10 3 /'' =
           (Inl (SyntaxError ''Unknown token in expression: -10''), self) \<and>
         evaluate_expression self '' 0 10 - 3 /'' =
           (Inr (VInt (- 4)), self\<lparr>stdout := stdout self @ [''Result of expression: -4'']\<rparr>)"
proof -
  have k: "constants self ''/'' = None" "constants self ''-'' = None"
    "constants self ''-10'' = None"
    using assms not_ident_symbols by (simp_all add: ident_keys_None)
  have a: "evaluate_expression self '' 10 3 /'' =
           (Inr (VInt 3), self\<lparr>stdout := stdout self @ [''Result of expression: 3'']\<rparr>)"
    using k by (simp add: eval_defs text_defs)
  have b: "evaluate_expression self '' -10 3 /'' =
           (Inl (SyntaxError ''Unknown token in expression: -10''), self)"
    using k by (simp add: eval_defs text_defs)
  have c: "evaluate_expression self '' 0 10 - 3 /'' =
           (Inr (VInt (- 4)), self\<lparr>stdout := stdout self @ [''Result of expression: -4'']\<rparr>)"
    using k by (simp add: eval_defs text_defs)
  show ?thesis
    using a b c by (simp add: parse_line_def)
qed

theorem expression_scenarios_witness:
  "ident_keys (constants init) \<and>
   parse_line init ''^ 10 3 /'' = (Inr (), init\<lparr>stdout := [''Result of expression: 3'']\<rparr>) \<and>
   parse_line init ''^ -10 3 /'' = (Inl (SyntaxError ''Unknown token in expression: -10''), init)"
  using expression_scenarios [OF init_ident_keys] init_ident_keys
  by (simp add: init_def)

text \<open>C5 as stated fails: \<^verbatim>\<open>^ -10 3 /\<close> does not report \<open>-4\<close>; it raises and prints
  nothing.\<close>

theorem negative_literal_counterexample:
  "fst (parse_line init ''^ -10 3 /'') = Inl (SyntaxError ''Unknown token in expression: -10'') \<and>
   fst (evaluate_expression init '' -10 3 /'') \<noteq> Inr (VInt (- 4)) \<and>
   stdout (snd (parse_line init ''^ -10 3 /'')) = []"
  by (simp add: init_def parse_line_def eval_defs text_defs)

text \<open>
  C6. On the line \<^verbatim>\<open>^ 1 +\<close> the loop pushes 1; at \<^verbatim>\<open>+\<close> the first \<^verbatim>\<open>stack.pop()\<close> takes it
  and the second finds the list empty and raises \<^verbatim>\<open>IndexError\<close>. That exception is not a
  \<^verbatim>\<open>SyntaxError\<close>, which the other malformed expressions raise: a stack that does not
  end with one value (\<^verbatim>\<open>^ 1 2\<close>) and an unknown token (\<^verbatim>\<open>^ 1 ?\<close>).
\<close>

theorem underflow_raises_IndexError:
  "parse_line init ''^ 1 +'' = (Inl IndexError, init) \<and>
   \<not> raises_SyntaxError (fst (parse_line init ''^ 1 +'')) \<and>
   parse_line init ''^ 1 2'' = (Inl (SyntaxError ''Invalid expression:  1 2''), init) \<and>
   parse_line init ''^ 1 ?'' = (Inl (SyntaxError ''Unknown token in expression: ?''), init)"
  by (simp add: raises_SyntaxError_def init_def parse_line_def eval_defs text_defs)

text \<open>
  C8. An expression line, whatever its outcome, leaves the symbol table and the document
  as they were. When it succeeds, exactly one line is printed, the result of the
  expression; when it fails, nothing is printed.
\<close>

theorem expression_frame:
  assumes "startswith line ''^''" and "parse_line self line = (r, self')"
  shows "constants self' = constants self \<and> xml_root self' = xml_root self \<and>
         (case r of
            Inl e \<Rightarrow> fst (evaluate_expression self (tl line)) = Inl e \<and> stdout self' = stdout self
          | Inr u \<Rightarrow>
              (\<exists>v. fst (evaluate_expression self (tl line)) = Inr v \<and>
                   stdout self' = stdout self @ [''Result of expression: '' @ str_val v]))"
proof -
  obtain c cs where line: "line = c # cs" and c: "c = CHR ''^''"
    using assms(1) by (cases line) auto
  have pl: "parse_line self line =
        (case evaluate_expression self (tl line) of
           (Inl e, s) \<Rightarrow> (Inl e, s)
         | (Inr v, s) \<Rightarrow> (Inr (), s))"
    using line c by (simp add: parse_line_def)
  show ?thesis
  proof (cases "eval_tokens (constants self) [] (split_ws (tl line))")
    case (Inl e)
    with pl assms(2) show ?thesis by (auto simp: evaluate_expression_def)
  next
    case (Inr stack)
    with pl assms(2) show ?thesis
      by (cases "length stack = 1") (auto simp: evaluate_expression_def)
  qed
qed

theorem expression_frame_witness:
  "startswith ''^ 3 4 +'' ''^'' \<and>
   parse_line init ''^ 3 4 +'' = (Inr (), init\<lparr>stdout := [''Result of expression: 7'']\<rparr>) \<and>
   constants (init\<lparr>stdout := [''Result of expression: 7'']\<rparr>) = constants init \<and>
   xml_root (init\<lparr>stdout := [''Result of expression: 7'']\<rparr>) = xml_root init \<and>
   (\<exists>v. fst (evaluate_expression init '' 3 4 +'') = Inr v \<and>
        stdout (init\<lparr>stdout := [''Result of expression: 7'']\<rparr>) =
          stdout init @ [''Result of expression: '' @ str_val v])"
proof -
  have s: "startswith ''^ 3 4 +'' ''^''" by simp
  have p: "parse_line init ''^ 3 4 +'' = (Inr (), init\<lparr>stdout := [''Result of expression: 7'']\<rparr>)"
    by (simp add: init_def parse_line_def eval_defs text_defs)
  show ?thesis
    using s p expression_frame [OF s p] by simp
qed

text \<open>
  C9. An empty line and a line that starts with \<^verbatim>\<open>#\<close> are skipped and leave the parser
  unchanged. A line that is neither, and starts neither with \<^verbatim>\<open>global \<close> (with its
  space) nor with \<^verbatim>\<open>^\<close>, raises \<^verbatim>\<open>SyntaxError\<close> with the line in its message and leaves
  the parser unchanged; \<^verbatim>\<open>bogus line\<close> is such a line.
\<close>

theorem unknown_directive:
  "(line = [] \<or> startswith line ''#'' \<longrightarrow> parse_line self line = (Inr (), self)) \<and>
   (line \<noteq> [] \<and> \<not> startswith line ''#'' \<and> \<not> startswith line ''global '' \<and>
    \<not> startswith line ''^'' \<longrightarrow>
      parse_line self line = (Inl (SyntaxError (''Unknown syntax: '' @ line)), self)) \<and>
   parse_line self ''bogus line'' = (Inl (SyntaxError ''Unknown syntax: bogus line''), self)"
  by (simp add: parse_line_def)

theorem unknown_directive_witness:
  "startswith ''# x = 1'' ''#'' \<and>
   parse_line init ''# x = 1'' = (Inr (), init) \<and>
   parse_line init [] = (Inr (), init) \<and>
   \<not> startswith ''12 +'' ''#'' \<and> \<not> startswith ''12 +'' ''global '' \<and> \<not> startswith ''12 +'' ''^'' \<and>
   parse_line init ''12 +'' = (Inl (SyntaxError ''Unknown syntax: 12 +''), init)"
proof -
  have a: "parse_line init ''# x = 1'' = (Inr (), init)"
    using unknown_directive [of "''# x = 1''" init] by simp
  have b: "parse_line init [] = (Inr (), init)"
    using unknown_directive [of "[]" init] by simp
  have c: "parse_line init ''12 +'' = (Inl (SyntaxError (''Unknown syntax: '' @ ''12 +'')), init)"
    using unknown_directive [of "''12 +''" init] by simp
  show ?thesis using a b c by simp
qed

end
